theory Spec2Isabelle
  imports Main "HOL-Library.Word"
begin

unbundle bit_operations_syntax

section \<open>Data model of \<^verbatim>\<open>main.go\<close>\<close>

text \<open>
  The service keeps todo items in the MongoDB collection \<^verbatim>\<open>todo\<close> and serves four
  handlers: \<^verbatim>\<open>getTodos\<close>, \<^verbatim>\<open>createTodo\<close>, \<^verbatim>\<open>updateTodo\<close> and \<^verbatim>\<open>deleteTodo\<close>.
  Go strings are byte strings, so they are \<open>string\<close> here (a list of 8-bit \<open>char\<close>).
  A \<^verbatim>\<open>primitive.ObjectID\<close> is a \<^verbatim>\<open>[12]byte\<close>; a \<^verbatim>\<open>time.Time\<close> is read as the number of
  nanoseconds since the Unix epoch. Logging is not modelled.
\<close>

type_synonym ObjectID = "8 word list"
type_synonym Time = int

text \<open>The Go structs. Isabelle record fields share one name space, so each field carries
  the initial of its struct: \<open>m\<close> for \<^verbatim>\<open>TodoModel\<close>, \<open>t\<close> for \<^verbatim>\<open>Todo\<close>, \<open>c\<close> for
  \<^verbatim>\<open>CreateTodo\<close>, \<open>u\<close> for \<^verbatim>\<open>UpdateTodo\<close>.\<close>

record TodoModel =
  m_ID :: ObjectID
  m_Title :: string
  m_Completed :: bool
  m_CreatedAt :: Time

record Todo =
  t_ID :: string
  t_Title :: string
  t_Completed :: bool
  t_CreatedAt :: Time

record CreateTodo =
  c_Title :: string

record UpdateTodo =
  u_Title :: string
  u_Completed :: bool

text \<open>The errors the handlers can see. \<open>ErrInvalidHex\<close> comes from
  \<^verbatim>\<open>primitive.ObjectIDFromHex\<close>, \<open>ErrLength\<close> and \<open>InvalidByteError\<close> from
  \<^verbatim>\<open>encoding/hex\<close>; \<open>SyntaxError\<close> stands for every failure of the JSON decoder to
  read one value from the body (bad syntax, empty body, read error);
  \<open>UnmarshalTypeError v f\<close> is a JSON value of kind \<open>v\<close> that does not fit the Go field \<open>f\<close>;
  \<open>StorageError\<close> is an error returned by the MongoDB driver.\<close>

datatype error =
    ErrInvalidHex
  | ErrLength
  | InvalidByteError char
  | SyntaxError
  | UnmarshalTypeError string string
  | StorageError string

section \<open>Identifiers: \<^verbatim>\<open>encoding/hex\<close> and \<^verbatim>\<open>primitive.ObjectID\<close>\<close>

text \<open>\<^verbatim>\<open>fromHexChar\<close> of \<^verbatim>\<open>encoding/hex\<close>: digits, \<^verbatim>\<open>a-f\<close> and \<^verbatim>\<open>A-F\<close> are accepted.\<close>

definition fromHexChar :: "char \<Rightarrow> 8 word option" where
  "fromHexChar c =
     (let n = (of_char c :: nat) in
      if 48 \<le> n \<and> n \<le> 57 then Some (of_nat (n - 48))
      else if 97 \<le> n \<and> n \<le> 102 then Some (of_nat (n - 97 + 10))
      else if 65 \<le> n \<and> n \<le> 70 then Some (of_nat (n - 65 + 10))
      else None)"

text \<open>\<^verbatim>\<open>hex.Decode\<close> on a source of even length (the only lengths \<^verbatim>\<open>ObjectIDFromHex\<close> passes
  on): pairs of digits from the left, the first bad byte is reported.\<close>

fun hex_Decode :: "string \<Rightarrow> error + 8 word list" where
  "hex_Decode (p # q # rest) =
     (case fromHexChar p of
        None \<Rightarrow> Inl (InvalidByteError p)
      | Some a \<Rightarrow>
          (case fromHexChar q of
             None \<Rightarrow> Inl (InvalidByteError q)
           | Some b \<Rightarrow>
               (case hex_Decode rest of
                  Inl e \<Rightarrow> Inl e
                | Inr bs \<Rightarrow> Inr ((push_bit 4 a OR b) # bs))))"
| "hex_Decode [c] =
     (case fromHexChar c of None \<Rightarrow> Inl (InvalidByteError c) | Some a \<Rightarrow> Inl ErrLength)"
| "hex_Decode [] = Inr []"

text \<open>\<^verbatim>\<open>primitive.ObjectIDFromHex\<close>: the length must be 24, then the string is hex-decoded.\<close>

definition ObjectIDFromHex :: "string \<Rightarrow> error + ObjectID" where
  "ObjectIDFromHex s = (if length s \<noteq> 24 then Inl ErrInvalidHex else hex_Decode s)"

text \<open>\<^verbatim>\<open>ObjectID.Hex\<close>: two lowercase digits per byte.\<close>

definition hexdigit :: "8 word \<Rightarrow> char" where
  "hexdigit n = ''0123456789abcdef'' ! unat (n AND 15)"

fun Hex :: "ObjectID \<Rightarrow> string" where
  "Hex [] = []"
| "Hex (b # bs) = hexdigit (drop_bit 4 b) # hexdigit b # Hex bs"

section \<open>\<^verbatim>\<open>strings.TrimSpace\<close>\<close>

text \<open>\<^verbatim>\<open>strings.TrimSpace\<close> removes every leading and every trailing white-space code point,
  reading the bytes as UTF-8. \<^verbatim>\<open>unicode.IsSpace\<close> holds of \<^verbatim>\<open>\t \n \v \f \r\<close>, the blank,
  U+0085, U+00A0, U+1680, U+2000 to U+200A, U+2028, U+2029, U+202F, U+205F and U+3000; these
  are their UTF-8 encodings. A byte sequence that is no such encoding (also an ill-formed one)
  stops the trimming.\<close>

definition space_encodings :: "string list" where
  "space_encodings =
     [[CHR 0x09], [CHR 0x0A], [CHR 0x0B], [CHR 0x0C], [CHR 0x0D], [CHR 0x20],
      [CHR 0xC2, CHR 0x85], [CHR 0xC2, CHR 0xA0],
      [CHR 0xE1, CHR 0x9A, CHR 0x80],
      [CHR 0xE2, CHR 0x80, CHR 0x80], [CHR 0xE2, CHR 0x80, CHR 0x81],
      [CHR 0xE2, CHR 0x80, CHR 0x82], [CHR 0xE2, CHR 0x80, CHR 0x83],
      [CHR 0xE2, CHR 0x80, CHR 0x84], [CHR 0xE2, CHR 0x80, CHR 0x85],
      [CHR 0xE2, CHR 0x80, CHR 0x86], [CHR 0xE2, CHR 0x80, CHR 0x87],
      [CHR 0xE2, CHR 0x80, CHR 0x88], [CHR 0xE2, CHR 0x80, CHR 0x89],
      [CHR 0xE2, CHR 0x80, CHR 0x8A],
      [CHR 0xE2, CHR 0x80, CHR 0xA8], [CHR 0xE2, CHR 0x80, CHR 0xA9],
      [CHR 0xE2, CHR 0x80, CHR 0xAF], [CHR 0xE2, CHR 0x81, CHR 0x9F],
      [CHR 0xE3, CHR 0x80, CHR 0x80]]"

text \<open>The number of bytes of the white-space code point a string starts with (0 if it starts
  with none), and the same read from the end of the string.\<close>

definition leadingSpace :: "string \<Rightarrow> nat" where
  "leadingSpace s =
     (case find (\<lambda>w. take (length w) s = w) space_encodings of
        None \<Rightarrow> 0 | Some w \<Rightarrow> length w)"

definition trailingSpace :: "string \<Rightarrow> nat" where
  "trailingSpace s =
     (case find (\<lambda>w. length w \<le> length s \<and> drop (length s - length w) s = w) space_encodings of
        None \<Rightarrow> 0 | Some w \<Rightarrow> length w)"

function TrimLeft :: "string \<Rightarrow> string" where
  "TrimLeft s = (if leadingSpace s = 0 then s else TrimLeft (drop (leadingSpace s) s))"
  by pat_completeness auto
termination
proof (relation "measure length")
  show "wf (measure length)" by simp
next
  fix s :: string
  assume "leadingSpace s \<noteq> 0"
  then have "s \<noteq> []" by (auto simp: leadingSpace_def space_encodings_def)
  with \<open>leadingSpace s \<noteq> 0\<close> show "(drop (leadingSpace s) s, s) \<in> measure length" by simp
qed

function TrimRight :: "string \<Rightarrow> string" where
  "TrimRight s =
     (if trailingSpace s = 0 then s else TrimRight (take (length s - trailingSpace s) s))"
  by pat_completeness auto
termination
proof (relation "measure length")
  show "wf (measure length)" by simp
next
  fix s :: string
  assume "trailingSpace s \<noteq> 0"
  then have "s \<noteq> []" by (auto simp: trailingSpace_def space_encodings_def)
  with \<open>trailingSpace s \<noteq> 0\<close>
  show "(take (length s - trailingSpace s) s, s) \<in> measure length" by simp
qed

definition TrimSpace :: "string \<Rightarrow> string" where
  "TrimSpace s = TrimRight (TrimLeft s)"

section \<open>Request bodies: \<^verbatim>\<open>encoding/json\<close>\<close>

text \<open>A request body is given by what the JSON decoder reads from it: either no JSON value
  at all (\<open>Garbled\<close>: a syntax error, an empty body, a read error), or one JSON value
  (\<open>Document\<close>), whose object members are kept in the order and with the duplicates of the
  text. A number is kept as its literal.\<close>

datatype json =
    JNull
  | JBool bool
  | JNumber string
  | JString string
  | JArray "json list"
  | JObject "(string \<times> json) list"

datatype body = Garbled | Document json

text \<open>The name \<^verbatim>\<open>UnmarshalTypeError.Value\<close> gives to a JSON value.\<close>

fun kind :: "json \<Rightarrow> string" where
  "kind JNull = ''null''"
| "kind (JBool b) = ''bool''"
| "kind (JNumber n) = ''number''"
| "kind (JString s) = ''string''"
| "kind (JArray xs) = ''array''"
| "kind (JObject kvs) = ''object''"

text \<open>An object key selects the struct field whose JSON name it equals, or else the first
  field whose name it equals up to the case of letters. The names here are \<^verbatim>\<open>title\<close> and
  \<^verbatim>\<open>completed\<close>, which hold neither \<^verbatim>\<open>k\<close> nor \<^verbatim>\<open>s\<close>, so the folding is that of ASCII
  letters.\<close>

definition toLower :: "char \<Rightarrow> char" where
  "toLower c =
     (let n = (of_char c :: nat) in if 65 \<le> n \<and> n \<le> 90 then char_of (n + 32) else c)"

definition equalFold :: "string \<Rightarrow> string \<Rightarrow> bool" where
  "equalFold s t = (map toLower s = map toLower t)"

definition fieldFor :: "string list \<Rightarrow> string \<Rightarrow> string option" where
  "fieldFor names key =
     (case find (\<lambda>f. f = key) names of
        Some f \<Rightarrow> Some f
      | None \<Rightarrow> find (\<lambda>f. equalFold f key) names)"

text \<open>The decoder keeps the first error and goes on (\<^verbatim>\<open>saveError\<close>).\<close>

definition saveError :: "error \<Rightarrow> error option \<Rightarrow> error option" where
  "saveError e saved = (case saved of None \<Rightarrow> Some e | Some e0 \<Rightarrow> Some e0)"

text \<open>One member of a JSON object stored into a \<^verbatim>\<open>CreateTodo\<close>: a string sets \<^verbatim>\<open>Title\<close>,
  \<^verbatim>\<open>null\<close> leaves it, any other value is a type error; a key that selects no field is
  skipped with its value.\<close>

definition member_CreateTodo ::
  "string \<times> json \<Rightarrow> CreateTodo \<times> error option \<Rightarrow> CreateTodo \<times> error option" where
  "member_CreateTodo kv acc =
     (case fieldFor [''title''] (fst kv) of
        None \<Rightarrow> acc
      | Some f \<Rightarrow>
          (case snd kv of
             JString s \<Rightarrow> ((fst acc)\<lparr>c_Title := s\<rparr>, snd acc)
           | JNull \<Rightarrow> acc
           | v \<Rightarrow> (fst acc, saveError (UnmarshalTypeError (kind v) f) (snd acc))))"

definition member_UpdateTodo ::
  "string \<times> json \<Rightarrow> UpdateTodo \<times> error option \<Rightarrow> UpdateTodo \<times> error option" where
  "member_UpdateTodo kv acc =
     (case fieldFor [''title'', ''completed''] (fst kv) of
        None \<Rightarrow> acc
      | Some f \<Rightarrow>
          (if f = ''title'' then
             (case snd kv of
                JString s \<Rightarrow> ((fst acc)\<lparr>u_Title := s\<rparr>, snd acc)
              | JNull \<Rightarrow> acc
              | v \<Rightarrow> (fst acc, saveError (UnmarshalTypeError (kind v) f) (snd acc)))
           else
             (case snd kv of
                JBool b \<Rightarrow> ((fst acc)\<lparr>u_Completed := b\<rparr>, snd acc)
              | JNull \<Rightarrow> acc
              | v \<Rightarrow> (fst acc, saveError (UnmarshalTypeError (kind v) f) (snd acc)))))"

text \<open>\<^verbatim>\<open>json.NewDecoder(r.Body).Decode(&v)\<close> for the two request structs: the struct after the
  call and the error returned. Without a JSON value the struct is not touched. An object is
  stored member by member, from the left; \<^verbatim>\<open>null\<close> stores nothing and is no error; any
  other value is a type error. A type error does not stop the decoding: the members that fit
  are stored all the same, and the first error is returned at the end.\<close>

definition Decode_CreateTodo :: "body \<Rightarrow> CreateTodo \<Rightarrow> CreateTodo \<times> error option" where
  "Decode_CreateTodo b v =
     (case b of
        Garbled \<Rightarrow> (v, Some SyntaxError)
      | Document j \<Rightarrow>
          (case j of
             JObject kvs \<Rightarrow> foldl (\<lambda>acc kv. member_CreateTodo kv acc) (v, None) kvs
           | JNull \<Rightarrow> (v, None)
           | x \<Rightarrow> (v, Some (UnmarshalTypeError (kind x) []))))"

definition Decode_UpdateTodo :: "body \<Rightarrow> UpdateTodo \<Rightarrow> UpdateTodo \<times> error option" where
  "Decode_UpdateTodo b v =
     (case b of
        Garbled \<Rightarrow> (v, Some SyntaxError)
      | Document j \<Rightarrow>
          (case j of
             JObject kvs \<Rightarrow> foldl (\<lambda>acc kv. member_UpdateTodo kv acc) (v, None) kvs
           | JNull \<Rightarrow> (v, None)
           | x \<Rightarrow> (v, Some (UnmarshalTypeError (kind x) []))))"

section \<open>The collection and the MongoDB driver\<close>

text \<open>A document of the collection. \<^verbatim>\<open>TodoModel\<close> is stored under the BSON keys of its struct
  tags, \<^verbatim>\<open>id\<close>, \<^verbatim>\<open>title\<close>, \<^verbatim>\<open>completed\<close> and \<^verbatim>\<open>created_at\<close>. None of them is \<^verbatim>\<open>_id\<close>, the
  key of MongoDB's own primary key, so every stored document has an \<^verbatim>\<open>_id\<close> besides its
  \<^verbatim>\<open>id\<close> (field \<open>d_key\<close> here). A BSON date is a number of milliseconds. The tag
  \<^verbatim>\<open>omitempty\<close> of \<^verbatim>\<open>ID\<close> leaves out only the all-zero identifier, which
  \<^verbatim>\<open>primitive.NewObjectID\<close> does not return; the model stores \<^verbatim>\<open>id\<close> always.
  The collection is the list of its documents in the order \<^verbatim>\<open>Find\<close> returns them.\<close>

record Doc =
  d_key :: ObjectID
  d_id :: ObjectID
  d_title :: string
  d_completed :: bool
  d_created_at :: int

type_synonym Collection = "Doc list"

text \<open>What a handler call takes from its environment: the clock (\<^verbatim>\<open>time.Now()\<close>), the
  identifier \<^verbatim>\<open>primitive.NewObjectID()\<close> returns to the handler, the identifier the driver
  generates for \<^verbatim>\<open>_id\<close>, whether the driver call of the handler fails (and with which error;
  the collection is then as before), and whether reading the cursor fails.\<close>

record Env =
  e_Now :: Time
  e_NewObjectID :: ObjectID
  e_driverID :: ObjectID
  e_storage :: "error option"
  e_cursor :: "error option"

text \<open>\<^verbatim>\<open>InsertOne\<close>: the document has no \<^verbatim>\<open>_id\<close>, so the driver puts a new identifier in front
  and returns that one as \<^verbatim>\<open>InsertedID\<close>. The server refuses a second document with the same
  \<^verbatim>\<open>_id\<close>. The new document is the last one \<^verbatim>\<open>Find\<close> returns.\<close>

definition InsertOne :: "Env \<Rightarrow> TodoModel \<Rightarrow> Collection \<Rightarrow> error + (ObjectID \<times> Collection)" where
  "InsertOne env m coll =
     (case e_storage env of
        Some e \<Rightarrow> Inl e
      | None \<Rightarrow>
          (let doc = \<lparr>d_key = e_driverID env, d_id = m_ID m, d_title = m_Title m,
                      d_completed = m_Completed m, d_created_at = m_CreatedAt m div 1000000\<rparr>
           in if d_key doc \<in> set (map d_key coll)
              then Inl (StorageError ''E11000 duplicate key error'')
              else Inr (d_key doc, coll @ [doc])))"

text \<open>\<^verbatim>\<open>UpdateOne\<close> with the filter \<^verbatim>\<open>{"id": objID}\<close> and the update
  \<^verbatim>\<open>{"$set": {"title": t, "completed": c}}\<close>: the first document whose \<^verbatim>\<open>id\<close> is \<open>objID\<close>
  gets the two fields; \<^verbatim>\<open>ModifiedCount\<close> is 1 if that changed the document and 0 otherwise.\<close>

fun updateFirst :: "ObjectID \<Rightarrow> string \<Rightarrow> bool \<Rightarrow> Collection \<Rightarrow> Collection \<times> int" where
  "updateFirst objID t c [] = ([], 0)"
| "updateFirst objID t c (d # ds) =
     (if d_id d = objID
      then (d\<lparr>d_title := t, d_completed := c\<rparr> # ds,
            if d\<lparr>d_title := t, d_completed := c\<rparr> = d then 0 else 1)
      else (d # fst (updateFirst objID t c ds), snd (updateFirst objID t c ds)))"

definition UpdateOne ::
  "Env \<Rightarrow> ObjectID \<Rightarrow> string \<Rightarrow> bool \<Rightarrow> Collection \<Rightarrow> error + (int \<times> Collection)" where
  "UpdateOne env objID t c coll =
     (case e_storage env of
        Some e \<Rightarrow> Inl e
      | None \<Rightarrow> Inr (snd (updateFirst objID t c coll), fst (updateFirst objID t c coll)))"

text \<open>\<^verbatim>\<open>DeleteOne\<close> with the filter \<^verbatim>\<open>{"id": objID}\<close>: the first document whose \<^verbatim>\<open>id\<close> is
  \<open>objID\<close> is removed; \<^verbatim>\<open>DeletedCount\<close> is the number of documents removed.\<close>

fun deleteFirst :: "ObjectID \<Rightarrow> Collection \<Rightarrow> Collection \<times> int" where
  "deleteFirst objID [] = ([], 0)"
| "deleteFirst objID (d # ds) =
     (if d_id d = objID then (ds, 1)
      else (d # fst (deleteFirst objID ds), snd (deleteFirst objID ds)))"

definition DeleteOne :: "Env \<Rightarrow> ObjectID \<Rightarrow> Collection \<Rightarrow> error + (int \<times> Collection)" where
  "DeleteOne env objID coll =
     (case e_storage env of
        Some e \<Rightarrow> Inl e
      | None \<Rightarrow> Inr (snd (deleteFirst objID coll), fst (deleteFirst objID coll)))"

text \<open>\<^verbatim>\<open>Find\<close> with the empty filter, and \<^verbatim>\<open>cursor.All\<close> into a \<^verbatim>\<open>[]TodoModel\<close>: every document,
  decoded by the struct tags (\<^verbatim>\<open>_id\<close> has no field and is dropped).\<close>

definition Find :: "Env \<Rightarrow> Collection \<Rightarrow> error + Collection" where
  "Find env coll = (case e_storage env of Some e \<Rightarrow> Inl e | None \<Rightarrow> Inr coll)"

definition toTodoModel :: "Doc \<Rightarrow> TodoModel" where
  "toTodoModel d =
     \<lparr>m_ID = d_id d, m_Title = d_title d, m_Completed = d_completed d,
      m_CreatedAt = d_created_at d * 1000000\<rparr>"

definition cursor_All :: "Env \<Rightarrow> Collection \<Rightarrow> error + TodoModel list" where
  "cursor_All env cursor =
     (case e_cursor env of Some e \<Rightarrow> Inl e | None \<Rightarrow> Inr (map toTodoModel cursor))"

section \<open>Requests and responses\<close>

text \<open>A request is its path parameter \<^verbatim>\<open>chi.URLParam(r, "id")\<close> and its body.\<close>

record Request =
  r_id :: string
  r_Body :: body

text \<open>The values of the fields of a JSON response, and a response body as the list of its
  fields. \<open>ErrText e\<close> is the string \<^verbatim>\<open>e.Error()\<close>. An \<^verbatim>\<open>ObjectID\<close> is rendered as the
  string of its \<^verbatim>\<open>Hex()\<close>.\<close>

datatype jvalue = Str string | ErrText error | Count int | Data "Todo list"

type_synonym payload = "(string \<times> jvalue) list"

text \<open>The \<^verbatim>\<open>http.ResponseWriter\<close>: the status of the response is that of the first
  \<^verbatim>\<open>WriteHeader\<close> (a later call is ignored by \<^verbatim>\<open>net/http\<close>), and the bodies written follow
  each other.\<close>

record ResponseWriter =
  rw_status :: "nat option"
  rw_written :: "payload list"

definition newResponse :: ResponseWriter where
  "newResponse = \<lparr>rw_status = None, rw_written = []\<rparr>"

abbreviation StatusOK :: nat where "StatusOK \<equiv> 200"
abbreviation StatusCreated :: nat where "StatusCreated \<equiv> 201"
abbreviation StatusBadRequest :: nat where "StatusBadRequest \<equiv> 400"
abbreviation StatusNotFound :: nat where "StatusNotFound \<equiv> 404"
abbreviation StatusInternalServerError :: nat where "StatusInternalServerError \<equiv> 500"

text \<open>\<^verbatim>\<open>json.Marshal\<close> of a response body. Strings and numbers always encode. A
  \<^verbatim>\<open>time.Time\<close> encodes only if its year, in UTC, lies between 0 and 9999
  (\<^verbatim>\<open>Time.MarshalJSON\<close> returns an error otherwise), so a list of todos encodes only if
  every \<^verbatim>\<open>CreatedAt\<close> does. The bounds are the first nanosecond of the year 0 and of the
  year 10000.\<close>

definition jsonTime :: "Time \<Rightarrow> bool" where
  "jsonTime t = (- 62167219200000000000 \<le> t \<and> t < 253402300800000000000)"

fun marshals :: "jvalue \<Rightarrow> bool" where
  "marshals (Str s) = True"
| "marshals (ErrText e) = True"
| "marshals (Count n) = True"
| "marshals (Data xs) = list_all (\<lambda>td. jsonTime (t_CreatedAt td)) xs"

text \<open>\<^verbatim>\<open>rnd.JSON(rw, status, v)\<close>: \<^verbatim>\<open>WriteHeader(status)\<close> first, then the JSON of \<open>v\<close> is
  written, unless encoding \<open>v\<close> fails: then the header is all that is sent. The handlers
  drop the error \<^verbatim>\<open>rnd.JSON\<close> returns.\<close>

definition rnd_JSON :: "ResponseWriter \<Rightarrow> nat \<Rightarrow> payload \<Rightarrow> ResponseWriter" where
  "rnd_JSON rw status v =
     rw\<lparr>rw_status := (case rw_status rw of None \<Rightarrow> Some status | Some s \<Rightarrow> Some s),
        rw_written := (if list_all (\<lambda>kv. marshals (snd kv)) v
                       then rw_written rw @ [v] else rw_written rw)\<rparr>"

section \<open>The handlers\<close>

definition toTodo :: "TodoModel \<Rightarrow> Todo" where
  "toTodo td =
     \<lparr>t_ID = Hex (m_ID td), t_Title = m_Title td, t_Completed = m_Completed td,
      t_CreatedAt = m_CreatedAt td\<rparr>"

text \<open>\<^verbatim>\<open>getTodos\<close>. The result is \<open>None\<close> when \<^verbatim>\<open>checkError\<close> ends the process
  (\<^verbatim>\<open>log.Fatalf\<close>) and no response is written. When a stored date cannot be encoded as
  JSON, \<^verbatim>\<open>rnd.JSON\<close> sends the status 200 and no body.\<close>

definition getTodos :: "ResponseWriter \<Rightarrow> Env \<Rightarrow> Collection \<Rightarrow> ResponseWriter option" where
  "getTodos rw env coll =
     (case Find env coll of
        Inl err \<Rightarrow>
          Some (rnd_JSON rw StatusInternalServerError
                  [(''message'', Str ''Could not fetch the todo collection''),
                   (''error'', ErrText err)])
      | Inr cursor \<Rightarrow>
          (case cursor_All env cursor of
             Inl err \<Rightarrow> None
           | Inr todoListFromDB \<Rightarrow>
               Some (rnd_JSON rw StatusOK
                       [(''message'', Str ''All todos retrieved''),
                        (''data'', Data (map toTodo todoListFromDB))])))"

text \<open>\<^verbatim>\<open>createTodo\<close>: the response written and the collection after the call.\<close>

definition createTodo ::
  "ResponseWriter \<Rightarrow> Request \<Rightarrow> Env \<Rightarrow> Collection \<Rightarrow> ResponseWriter \<times> Collection" where
  "createTodo rw r env coll =
     (let todoReq = fst (Decode_CreateTodo (r_Body r) \<lparr>c_Title = []\<rparr>);
          err = snd (Decode_CreateTodo (r_Body r) \<lparr>c_Title = []\<rparr>)
      in if err \<noteq> None then
           (rnd_JSON rw StatusBadRequest [(''message'', Str ''could not decode data'')], coll)
         else if c_Title todoReq = [] then
           (rnd_JSON rw StatusBadRequest [(''message'', Str ''please add a title'')], coll)
         else
           (let todoModel = \<lparr>m_ID = e_NewObjectID env, m_Title = c_Title todoReq,
                              m_Completed = False, m_CreatedAt = e_Now env\<rparr>
            in case InsertOne env todoModel coll of
                 Inl err \<Rightarrow>
                   (rnd_JSON rw StatusInternalServerError
                      [(''message'', Str ''failed to insert data into the database''),
                       (''error'', ErrText err)], coll)
               | Inr result \<Rightarrow>
                   (rnd_JSON rw StatusCreated
                      [(''message'', Str ''Todo created successfully''),
                       (''ID'', Str (Hex (fst result)))], snd result)))"

text \<open>\<^verbatim>\<open>updateTodo\<close>. After a decode error the handler writes its response and, having no
  \<^verbatim>\<open>return\<close> there, goes on with whatever the decoder stored.\<close>

definition updateTodo ::
  "ResponseWriter \<Rightarrow> Request \<Rightarrow> Env \<Rightarrow> Collection \<Rightarrow> ResponseWriter \<times> Collection" where
  "updateTodo rw r env coll =
     (let id = TrimSpace (r_id r)
      in case ObjectIDFromHex id of
           Inl err \<Rightarrow>
             (rnd_JSON rw StatusBadRequest
                [(''message'', Str ''The id is invalid''), (''error'', ErrText err)], coll)
         | Inr objID \<Rightarrow>
             (let updateTodoReq =
                    fst (Decode_UpdateTodo (r_Body r) \<lparr>u_Title = [], u_Completed = False\<rparr>);
                  rw1 = (case snd (Decode_UpdateTodo (r_Body r)
                                     \<lparr>u_Title = [], u_Completed = False\<rparr>) of
                           Some err \<Rightarrow>
                             rnd_JSON rw StatusBadRequest
                               [(''message'', Str ''could not decode the data''),
                                (''error'', ErrText err)]
                         | None \<Rightarrow> rw)
              in if u_Title updateTodoReq = [] then
                   (rnd_JSON rw1 StatusBadRequest
                      [(''message'', Str ''title cannot be empty'')], coll)
                 else
                   (case UpdateOne env objID (u_Title updateTodoReq)
                           (u_Completed updateTodoReq) coll of
                      Inl err \<Rightarrow>
                        (rnd_JSON rw1 StatusInternalServerError
                           [(''message'', Str ''failed to update data in db''),
                            (''error'', ErrText err)], coll)
                    | Inr result \<Rightarrow>
                        (rnd_JSON rw1 StatusOK
                           [(''message'', Str ''Updated successfully''),
                            (''resultCount'', Count (fst result))], snd result))))"

text \<open>\<^verbatim>\<open>deleteTodo\<close>. The path parameter is not trimmed here.\<close>

definition deleteTodo ::
  "ResponseWriter \<Rightarrow> Request \<Rightarrow> Env \<Rightarrow> Collection \<Rightarrow> ResponseWriter \<times> Collection" where
  "deleteTodo rw r env coll =
     (let id = r_id r
      in case ObjectIDFromHex id of
           Inl err \<Rightarrow>
             (rnd_JSON rw StatusBadRequest
                [(''message'', Str ''the ID is invalid''), (''error'', ErrText err)], coll)
         | Inr objID \<Rightarrow>
             (case DeleteOne env objID coll of
                Inl err \<Rightarrow>
                  (rnd_JSON rw StatusInternalServerError
                     [(''message'', Str ''error with deleting data''),
                      (''error'', ErrText err)], coll)
              | Inr result \<Rightarrow>
                  (if fst result = 0 then
                     (rnd_JSON rw StatusNotFound [(''message'', Str ''Todo not found'')],
                      snd result)
                   else
                     (rnd_JSON rw StatusOK
                        [(''message'', Str ''Item deleted successfully''),
                         (''resultCont'', Count (fst result))], snd result))))"

section \<open>Notions of the specification\<close>

text \<open>The identifier format of the specification, 24 lowercase hexadecimal digits, and the
  format \<^verbatim>\<open>ObjectIDFromHex\<close> accepts, 24 hexadecimal digits of either case.\<close>

definition lowerHex24 :: "string \<Rightarrow> bool" where
  "lowerHex24 s = (length s = 24 \<and> list_all (\<lambda>c. c \<in> set ''0123456789abcdef'') s)"

definition hexString24 :: "string \<Rightarrow> bool" where
  "hexString24 s = (length s = 24 \<and> list_all (\<lambda>c. c \<in> set ''0123456789abcdefABCDEF'') s)"







section \<open>Sample data\<close>

text \<open>Two identifiers, an environment in which the handler draws the first and the driver
  the second, and the document \<^verbatim>\<open>createTodo\<close> stores there for the title \<^verbatim>\<open>buy milk\<close>.\<close>

definition id_A :: ObjectID where
  "id_A = [0x65, 0x43, 0x21, 0x0f, 0xaa, 0xbb, 0xcc, 0xdd, 0xee, 0x00, 0x00, 0x01]"

definition id_B :: ObjectID where
  "id_B = [0x65, 0x43, 0x21, 0x0f, 0xaa, 0xbb, 0xcc, 0xdd, 0xee, 0x00, 0x00, 0x02]"

definition env0 :: Env where
  "env0 = \<lparr>e_Now = 1700000000123456789, e_NewObjectID = id_A, e_driverID = id_B,
           e_storage = None, e_cursor = None\<rparr>"

definition milk :: Doc where
  "milk = \<lparr>d_key = id_B, d_id = id_A, d_title = ''buy milk'', d_completed = False,
           d_created_at = 1700000000123\<rparr>"

definition request :: "string \<Rightarrow> body \<Rightarrow> Request" where
  "request i b = \<lparr>r_id = i, r_Body = b\<rparr>"

text \<open>The environment of a later request, with two further identifiers.\<close>

definition id_C :: ObjectID where
  "id_C = [0x65, 0x43, 0x21, 0x10, 0xaa, 0xbb, 0xcc, 0xdd, 0xee, 0x00, 0x00, 0x03]"

definition id_D :: ObjectID where
  "id_D = [0x65, 0x43, 0x21, 0x10, 0xaa, 0xbb, 0xcc, 0xdd, 0xee, 0x00, 0x00, 0x04]"

definition env1 :: Env where
  "env1 = \<lparr>e_Now = 1700000001987654321, e_NewObjectID = id_C, e_driverID = id_D,
           e_storage = None, e_cursor = None\<rparr>"

section \<open>Facts about the library functions\<close>

subsection \<open>Which strings \<^verbatim>\<open>ObjectIDFromHex\<close> accepts\<close>

lemma hexchar_in: "c \<in> set ''0123456789abcdefABCDEF'' \<Longrightarrow> fromHexChar c \<noteq> None"
  by (auto simp: fromHexChar_def)

lemma hexchar_out:
  assumes "fromHexChar c \<noteq> None"
  shows "c \<in> set ''0123456789abcdefABCDEF''"
proof -
  define n where "n = (of_char c :: nat)"
  have c: "c = char_of n" by (simp add: n_def)
  from assms have "(48 \<le> n \<and> n \<le> 57) \<or> (97 \<le> n \<and> n \<le> 102) \<or> (65 \<le> n \<and> n \<le> 70)"
    by (auto simp: fromHexChar_def Let_def n_def split: if_splits)
  then have "n \<in> {48,49,50,51,52,53,54,55,56,57,97,98,99,100,101,102,65,66,67,68,69,70}"
    by (simp only: insert_iff empty_iff) arith
  moreover have eq: "\<And>d. (c = d) = (n = of_char d)"
    unfolding n_def by (metis of_char_eq_iff)
  ultimately show ?thesis by (simp add: eq)
qed

lemma fromHexChar_None: "fromHexChar c = None \<longleftrightarrow> c \<notin> set ''0123456789abcdefABCDEF''"
  using hexchar_in hexchar_out by blast

lemma hex_Decode_ok:
  "even (length s) \<Longrightarrow> (\<exists>bs. hex_Decode s = Inr bs) \<longleftrightarrow> list_all (\<lambda>c. fromHexChar c \<noteq> None) s"
proof (induction s rule: hex_Decode.induct)
  case (1 p q rest)
  then show ?case by (cases "hex_Decode rest") (auto split: option.splits)
qed auto

lemma hex_Decode_length: "hex_Decode s = Inr bs \<Longrightarrow> length s = 2 * length bs"
  by (induction s arbitrary: bs rule: hex_Decode.induct) (auto split: option.splits sum.splits)

lemma ObjectIDFromHex_ok: "(\<exists>oid. ObjectIDFromHex s = Inr oid) \<longleftrightarrow> hexString24 s"
proof (cases "length s = 24")
  case True
  then have "even (length s)" by simp
  from hex_Decode_ok [OF this] True show ?thesis
    by (simp add: ObjectIDFromHex_def hexString24_def fromHexChar_None list_all_iff)
next
  case False
  then show ?thesis by (simp add: ObjectIDFromHex_def hexString24_def)
qed

lemma ObjectIDFromHex_length: "ObjectIDFromHex s = Inr oid \<Longrightarrow> length oid = 12"
  by (auto simp: ObjectIDFromHex_def split: if_splits dest: hex_Decode_length)

subsection \<open>The first matching document\<close>

lemma updateFirst_no_match:
  "objID \<notin> d_id ` set coll \<Longrightarrow> updateFirst objID t c coll = (coll, 0)"
  by (induction coll) auto

lemma updateFirst_match:
  "objID \<in> d_id ` set coll \<Longrightarrow>
   \<exists>pre d post. coll = pre @ d # post \<and> d_id d = objID \<and> objID \<notin> d_id ` set pre \<and>
     updateFirst objID t c coll =
       (pre @ d\<lparr>d_title := t, d_completed := c\<rparr> # post,
        if d\<lparr>d_title := t, d_completed := c\<rparr> = d then 0 else 1)"
proof (induction coll)
  case Nil
  then show ?case by simp
next
  case (Cons a coll)
  show ?case
  proof (cases "d_id a = objID")
    case True
    then have "a # coll = [] @ a # coll \<and> d_id a = objID \<and> objID \<notin> d_id ` set [] \<and>
      updateFirst objID t c (a # coll) =
        ([] @ a\<lparr>d_title := t, d_completed := c\<rparr> # coll,
         if a\<lparr>d_title := t, d_completed := c\<rparr> = a then 0 else 1)"
      by simp
    then show ?thesis by blast
  next
    case False
    with Cons.prems have "objID \<in> d_id ` set coll" by auto
    from Cons.IH [OF this] obtain pre d post where
      h: "coll = pre @ d # post" "d_id d = objID" "objID \<notin> d_id ` set pre"
         "updateFirst objID t c coll =
           (pre @ d\<lparr>d_title := t, d_completed := c\<rparr> # post,
            if d\<lparr>d_title := t, d_completed := c\<rparr> = d then 0 else 1)"
      by blast
    with False have "a # coll = (a # pre) @ d # post \<and> d_id d = objID \<and>
      objID \<notin> d_id ` set (a # pre) \<and>
      updateFirst objID t c (a # coll) =
        ((a # pre) @ d\<lparr>d_title := t, d_completed := c\<rparr> # post,
         if d\<lparr>d_title := t, d_completed := c\<rparr> = d then 0 else 1)"
      by auto
    then show ?thesis by blast
  qed
qed

lemma deleteFirst_no_match:
  "objID \<notin> d_id ` set coll \<Longrightarrow> deleteFirst objID coll = (coll, 0)"
  by (induction coll) auto

lemma deleteFirst_match:
  "objID \<in> d_id ` set coll \<Longrightarrow>
   \<exists>pre d post. coll = pre @ d # post \<and> d_id d = objID \<and> objID \<notin> d_id ` set pre \<and>
     deleteFirst objID coll = (pre @ post, 1)"
proof (induction coll)
  case Nil
  then show ?case by simp
next
  case (Cons a coll)
  show ?case
  proof (cases "d_id a = objID")
    case True
    then have "a # coll = [] @ a # coll \<and> d_id a = objID \<and> objID \<notin> d_id ` set [] \<and>
      deleteFirst objID (a # coll) = ([] @ coll, 1)"
      by simp
    then show ?thesis by blast
  next
    case False
    with Cons.prems have "objID \<in> d_id ` set coll" by auto
    from Cons.IH [OF this] obtain pre d post where
      h: "coll = pre @ d # post" "d_id d = objID" "objID \<notin> d_id ` set pre"
         "deleteFirst objID coll = (pre @ post, 1)"
      by blast
    with False have "a # coll = (a # pre) @ d # post \<and> d_id d = objID \<and>
      objID \<notin> d_id ` set (a # pre) \<and> deleteFirst objID (a # coll) = ((a # pre) @ post, 1)"
      by auto
    then show ?thesis by blast
  qed
qed









section \<open>The contract of the handlers\<close>

text \<open>C8, as the handler has it. A PUT with a well-formed id (after trimming) and a body that
  decodes without error to a non-empty title, whose id is the \<^verbatim>\<open>id\<close> of no stored document,
  is answered with 200 and a \<^verbatim>\<open>resultCount\<close> of 0 when the driver call does not fail, and the
  collection is as before.\<close>

theorem update_missing_item:
  assumes "ObjectIDFromHex (TrimSpace (r_id r)) = Inr objID"
    and "Decode_UpdateTodo (r_Body r) \<lparr>u_Title = [], u_Completed = False\<rparr> = (u, None)"
    and "u_Title u \<noteq> []"
    and "objID \<notin> d_id ` set coll"
    and "e_storage env = None"
  shows "updateTodo newResponse r env coll =
           (\<lparr>rw_status = Some StatusOK,
             rw_written = [[(''message'', Str ''Updated successfully''),
                            (''resultCount'', Count 0)]]\<rparr>, coll)"
  using assms
  by (simp add: updateTodo_def UpdateOne_def updateFirst_no_match rnd_JSON_def newResponse_def)

theorem update_missing_item_witness:
  "updateTodo newResponse
     (request ''6543210faabbccddee000002''
        (Document (JObject [(''title'', JString ''buy bread''), (''completed'', JBool True)])))
     env0 [milk] =
   (\<lparr>rw_status = Some StatusOK,
     rw_written = [[(''message'', Str ''Updated successfully''), (''resultCount'', Count 0)]]\<rparr>,
    [milk])"
proof -
  let ?r = "request ''6543210faabbccddee000002''
        (Document (JObject [(''title'', JString ''buy bread''), (''completed'', JBool True)]))"
  have 1: "ObjectIDFromHex (TrimSpace (r_id ?r)) = Inr id_B"
    by (simp add: request_def TrimSpace_def leadingSpace_def trailingSpace_def
        space_encodings_def ObjectIDFromHex_def fromHexChar_def id_B_def)
  have 2: "Decode_UpdateTodo (r_Body ?r) \<lparr>u_Title = [], u_Completed = False\<rparr> =
             (\<lparr>u_Title = ''buy bread'', u_Completed = True\<rparr>, None)"
    by (simp add: request_def Decode_UpdateTodo_def member_UpdateTodo_def fieldFor_def
        equalFold_def toLower_def)
  have 3: "u_Title \<lparr>u_Title = ''buy bread'', u_Completed = True\<rparr> \<noteq> []" by simp
  have 4: "id_B \<notin> d_id ` set [milk]" by (simp add: milk_def id_A_def id_B_def)
  have 5: "e_storage env0 = None" by (simp add: env0_def)
  show ?thesis by (rule update_missing_item [OF 1 2 3 4 5])
qed

text \<open>A body with the non-empty title \<^verbatim>\<open>buy bread\<close> and a \<^verbatim>\<open>completed\<close> that is no boolean,
  for an id no document has: the decoder reports an error, and the answer is 400, not 200.
  And when the driver call fails, the answer is 500.\<close>

theorem update_missing_item_counterexample:
  "ObjectIDFromHex (TrimSpace ''6543210faabbccddee000002'') = Inr id_B
   \<and> id_B \<notin> d_id ` set [milk]
   \<and> u_Title (fst (Decode_UpdateTodo
        (Document (JObject [(''title'', JString ''buy bread''),
                            (''completed'', JString ''yes'')]))
        \<lparr>u_Title = [], u_Completed = False\<rparr>)) = ''buy bread''
   \<and> e_storage env1 = None
   \<and> updateTodo newResponse
       (request ''6543210faabbccddee000002''
          (Document (JObject [(''title'', JString ''buy bread''),
                              (''completed'', JString ''yes'')])))
       env1 [milk] =
     (\<lparr>rw_status = Some StatusBadRequest,
       rw_written = [[(''message'', Str ''could not decode the data''),
                      (''error'', ErrText (UnmarshalTypeError ''string'' ''completed''))],
                     [(''message'', Str ''Updated successfully''),
                      (''resultCount'', Count 0)]]\<rparr>,
      [milk])
   \<and> updateTodo newResponse
       (request ''6543210faabbccddee000002''
          (Document (JObject [(''title'', JString ''buy bread'')])))
       (env1\<lparr>e_storage := Some (StorageError ''connection refused'')\<rparr>) [milk] =
     (\<lparr>rw_status = Some StatusInternalServerError,
       rw_written = [[(''message'', Str ''failed to update data in db''),
                      (''error'', ErrText (StorageError ''connection refused''))]]\<rparr>,
      [milk])"
  by (simp add: updateTodo_def request_def Decode_UpdateTodo_def member_UpdateTodo_def
      fieldFor_def equalFold_def toLower_def saveError_def ObjectIDFromHex_def fromHexChar_def
      TrimSpace_def leadingSpace_def trailingSpace_def space_encodings_def UpdateOne_def
      env1_def milk_def id_A_def id_B_def rnd_JSON_def newResponse_def)

text \<open>C7. A DELETE with a well-formed id, when the driver call does not fail: if a stored
  document has that \<^verbatim>\<open>id\<close>, the first such document, and nothing else, is removed and the
  answer is 200 with the count 1; if none has, the answer is 404 and nothing is removed. Where
  the ids of the stored documents are distinct, a second DELETE of the same id is answered
  with 404 and removes nothing.\<close>

theorem delete_contract:
  assumes "ObjectIDFromHex (r_id r) = Inr objID"
    and "e_storage env = None"
    and "e_storage env' = None"
  shows "(objID \<in> d_id ` set coll \<longrightarrow>
            (\<exists>pre d post. coll = pre @ d # post \<and> d_id d = objID \<and> objID \<notin> d_id ` set pre \<and>
               deleteTodo newResponse r env coll =
                 (\<lparr>rw_status = Some StatusOK,
                   rw_written = [[(''message'', Str ''Item deleted successfully''),
                                  (''resultCont'', Count 1)]]\<rparr>, pre @ post)))
       \<and> (objID \<notin> d_id ` set coll \<longrightarrow>
            deleteTodo newResponse r env coll =
              (\<lparr>rw_status = Some StatusNotFound,
                rw_written = [[(''message'', Str ''Todo not found'')]]\<rparr>, coll))
       \<and> (distinct (map d_id coll) \<longrightarrow>
            deleteTodo newResponse r env' (snd (deleteTodo newResponse r env coll)) =
              (\<lparr>rw_status = Some StatusNotFound,
                rw_written = [[(''message'', Str ''Todo not found'')]]\<rparr>,
               snd (deleteTodo newResponse r env coll)))"
proof (intro conjI impI)
  assume "objID \<in> d_id ` set coll"
  from deleteFirst_match [OF this] obtain pre d post where
    h: "coll = pre @ d # post" "d_id d = objID" "objID \<notin> d_id ` set pre"
       "deleteFirst objID coll = (pre @ post, 1)"
    by blast
  from assms h(4) have "deleteTodo newResponse r env coll =
      (\<lparr>rw_status = Some StatusOK,
        rw_written = [[(''message'', Str ''Item deleted successfully''),
                       (''resultCont'', Count 1)]]\<rparr>, pre @ post)"
    by (simp add: deleteTodo_def DeleteOne_def rnd_JSON_def newResponse_def)
  with h(1,2,3) show "\<exists>pre d post. coll = pre @ d # post \<and> d_id d = objID \<and>
      objID \<notin> d_id ` set pre \<and>
      deleteTodo newResponse r env coll =
        (\<lparr>rw_status = Some StatusOK,
          rw_written = [[(''message'', Str ''Item deleted successfully''),
                         (''resultCont'', Count 1)]]\<rparr>, pre @ post)"
    by blast
next
  assume "objID \<notin> d_id ` set coll"
  with assms show "deleteTodo newResponse r env coll =
      (\<lparr>rw_status = Some StatusNotFound,
        rw_written = [[(''message'', Str ''Todo not found'')]]\<rparr>, coll)"
    by (simp add: deleteTodo_def DeleteOne_def deleteFirst_no_match rnd_JSON_def
        newResponse_def)
next
  assume dist: "distinct (map d_id coll)"
  have gone: "objID \<notin> d_id ` set (fst (deleteFirst objID coll))"
  proof (cases "objID \<in> d_id ` set coll")
    case True
    from deleteFirst_match [OF this] obtain pre d post where
      h: "coll = pre @ d # post" "d_id d = objID" "deleteFirst objID coll = (pre @ post, 1)"
      by blast
    with dist show ?thesis by auto
  next
    case False
    then show ?thesis by (simp add: deleteFirst_no_match)
  qed
  from assms have "snd (deleteTodo newResponse r env coll) = fst (deleteFirst objID coll)"
    by (simp add: deleteTodo_def DeleteOne_def)
  with assms gone
  show "deleteTodo newResponse r env' (snd (deleteTodo newResponse r env coll)) =
      (\<lparr>rw_status = Some StatusNotFound,
        rw_written = [[(''message'', Str ''Todo not found'')]]\<rparr>,
       snd (deleteTodo newResponse r env coll))"
    by (simp add: deleteTodo_def DeleteOne_def deleteFirst_no_match rnd_JSON_def
        newResponse_def)
qed

theorem delete_contract_witness:
  "(\<exists>pre d post. [milk] = pre @ d # post \<and> d_id d = id_A \<and> id_A \<notin> d_id ` set pre \<and>
      deleteTodo newResponse (request ''6543210faabbccddee000001'' Garbled) env0 [milk] =
        (\<lparr>rw_status = Some StatusOK,
          rw_written = [[(''message'', Str ''Item deleted successfully''),
                         (''resultCont'', Count 1)]]\<rparr>, pre @ post))
   \<and> deleteTodo newResponse (request ''6543210faabbccddee000001'' Garbled) env0 [] =
        (\<lparr>rw_status = Some StatusNotFound,
          rw_written = [[(''message'', Str ''Todo not found'')]]\<rparr>, [])
   \<and> deleteTodo newResponse (request ''6543210faabbccddee000001'' Garbled) env0
        (snd (deleteTodo newResponse (request ''6543210faabbccddee000001'' Garbled) env0 [milk])) =
        (\<lparr>rw_status = Some StatusNotFound,
          rw_written = [[(''message'', Str ''Todo not found'')]]\<rparr>,
         snd (deleteTodo newResponse (request ''6543210faabbccddee000001'' Garbled) env0 [milk]))"
proof -
  let ?r = "request ''6543210faabbccddee000001'' Garbled"
  have 1: "ObjectIDFromHex (r_id ?r) = Inr id_A"
    by (simp add: request_def ObjectIDFromHex_def fromHexChar_def id_A_def)
  have 2: "e_storage env0 = None" by (simp add: env0_def)
  have 3: "id_A \<in> d_id ` set [milk]" by (simp add: milk_def)
  have 4: "id_A \<notin> d_id ` set []" by simp
  have 5: "distinct (map d_id [milk])" by simp
  from delete_contract [OF 1 2 2, of "[milk]"] delete_contract [OF 1 2 2, of "[]"] 3 4 5
  show ?thesis by blast
qed

text \<open>C6. A PUT that is answered with 200 and whose id is the \<^verbatim>\<open>id\<close> of a stored document
  replaces the first such document by one with the title and the completed flag of the
  request and the same \<^verbatim>\<open>id\<close>, \<^verbatim>\<open>created_at\<close> and \<^verbatim>\<open>_id\<close>; the documents before and after
  it are as they were.\<close>

theorem update_frame:
  assumes "ObjectIDFromHex (TrimSpace (r_id r)) = Inr objID"
    and "rw_status (fst (updateTodo newResponse r env coll)) = Some StatusOK"
    and "objID \<in> d_id ` set coll"
  shows "\<exists>pre d d' post.
           coll = pre @ d # post \<and> d_id d = objID \<and> objID \<notin> d_id ` set pre \<and>
           snd (updateTodo newResponse r env coll) = pre @ d' # post \<and>
           d_id d' = d_id d \<and> d_created_at d' = d_created_at d \<and> d_key d' = d_key d \<and>
           d_title d' =
             u_Title (fst (Decode_UpdateTodo (r_Body r) \<lparr>u_Title = [], u_Completed = False\<rparr>)) \<and>
           d_completed d' =
             u_Completed (fst (Decode_UpdateTodo (r_Body r) \<lparr>u_Title = [], u_Completed = False\<rparr>))"
proof -
  let ?u = "fst (Decode_UpdateTodo (r_Body r) \<lparr>u_Title = [], u_Completed = False\<rparr>)"
  from assms(1,2) have ok: "e_storage env = None" "u_Title ?u \<noteq> []"
    by (auto simp: updateTodo_def UpdateOne_def rnd_JSON_def newResponse_def Let_def
        split: option.splits if_splits)
  with assms(1) have res: "snd (updateTodo newResponse r env coll) =
      fst (updateFirst objID (u_Title ?u) (u_Completed ?u) coll)"
    by (simp add: updateTodo_def UpdateOne_def Let_def)
  from updateFirst_match [OF assms(3), of "u_Title ?u" "u_Completed ?u"]
  obtain pre d post where
    h: "coll = pre @ d # post" "d_id d = objID" "objID \<notin> d_id ` set pre"
       "fst (updateFirst objID (u_Title ?u) (u_Completed ?u) coll) =
          pre @ d\<lparr>d_title := u_Title ?u, d_completed := u_Completed ?u\<rparr> # post"
    by force
  let ?d' = "d\<lparr>d_title := u_Title ?u, d_completed := u_Completed ?u\<rparr>"
  from h res have "coll = pre @ d # post \<and> d_id d = objID \<and> objID \<notin> d_id ` set pre \<and>
      snd (updateTodo newResponse r env coll) = pre @ ?d' # post \<and>
      d_id ?d' = d_id d \<and> d_created_at ?d' = d_created_at d \<and> d_key ?d' = d_key d \<and>
      d_title ?d' = u_Title ?u \<and> d_completed ?d' = u_Completed ?u"
    by simp
  then show ?thesis by blast
qed

theorem update_frame_witness:
  "\<exists>pre d d' post.
     [milk] = pre @ d # post \<and> d_id d = id_A \<and> id_A \<notin> d_id ` set pre \<and>
     snd (updateTodo newResponse
            (request ''6543210faabbccddee000001''
               (Document (JObject [(''title'', JString ''buy oat milk''),
                                   (''completed'', JBool True)])))
            env1 [milk]) = pre @ d' # post \<and>
     d_id d' = d_id d \<and> d_created_at d' = d_created_at d \<and> d_key d' = d_key d \<and>
     d_title d' = ''buy oat milk'' \<and> d_completed d' = True"
proof -
  let ?r = "request ''6543210faabbccddee000001''
               (Document (JObject [(''title'', JString ''buy oat milk''),
                                   (''completed'', JBool True)]))"
  have 1: "ObjectIDFromHex (TrimSpace (r_id ?r)) = Inr id_A"
    by (simp add: request_def TrimSpace_def leadingSpace_def trailingSpace_def
        space_encodings_def ObjectIDFromHex_def fromHexChar_def id_A_def)
  have dec: "Decode_UpdateTodo (r_Body ?r) \<lparr>u_Title = [], u_Completed = False\<rparr> =
             (\<lparr>u_Title = ''buy oat milk'', u_Completed = True\<rparr>, None)"
    by (simp add: request_def Decode_UpdateTodo_def member_UpdateTodo_def fieldFor_def
        equalFold_def toLower_def)
  have 2: "rw_status (fst (updateTodo newResponse ?r env1 [milk])) = Some StatusOK"
    using 1 dec
    by (simp add: updateTodo_def UpdateOne_def rnd_JSON_def newResponse_def env1_def)
  have 3: "id_A \<in> d_id ` set [milk]" by (simp add: milk_def)
  from update_frame [OF 1 2 3] show ?thesis by (simp add: dec)
qed

subsection \<open>The collection after a handler call\<close>

lemma createTodo_collection:
  "snd (createTodo rw r env coll) = coll \<or>
   (\<exists>t. t \<noteq> [] \<and> snd (createTodo rw r env coll) =
      coll @ [\<lparr>d_key = e_driverID env, d_id = e_NewObjectID env, d_title = t,
                d_completed = False, d_created_at = e_Now env div 1000000\<rparr>])"
  by (auto simp: createTodo_def InsertOne_def Let_def split: option.splits)






subsection \<open>Object members that select no field of \<^verbatim>\<open>CreateTodo\<close>\<close>

lemma equalFold_length: "equalFold s t \<Longrightarrow> length s = length t"
  unfolding equalFold_def by (rule map_eq_imp_length_eq)

lemma completed_is_no_CreateTodo_field:
  assumes "equalFold k ''completed''"
  shows "fieldFor [''title''] k = None"
proof -
  from equalFold_length [OF assms] have len: "length k = 9" by simp
  then have "''title'' \<noteq> k" by auto
  moreover have "\<not> equalFold ''title'' k"
    using len equalFold_length [of "''title''" k] by auto
  ultimately show ?thesis by (simp add: fieldFor_def)
qed

lemma member_CreateTodo_skip:
  "equalFold (fst kv) ''completed'' \<Longrightarrow> member_CreateTodo kv acc = acc"
  by (simp add: member_CreateTodo_def completed_is_no_CreateTodo_field)

lemma foldl_member_CreateTodo_filter:
  "foldl (\<lambda>acc kv. member_CreateTodo kv acc) acc
     (filter (\<lambda>kv. \<not> equalFold (fst kv) ''completed'') kvs) =
   foldl (\<lambda>acc kv. member_CreateTodo kv acc) acc kvs"
  by (induction kvs arbitrary: acc) (simp_all add: member_CreateTodo_skip)

text \<open>C10. \<^verbatim>\<open>createTodo\<close> does not read a \<^verbatim>\<open>completed\<close> member of the body: the call gives
  the same response and the same collection with the member as without it, and every document
  the call adds has \<^verbatim>\<open>completed\<close> false.\<close>

theorem create_ignores_completed:
  "createTodo rw (request i (Document (JObject kvs))) env coll =
   createTodo rw
     (request i (Document (JObject (filter (\<lambda>kv. \<not> equalFold (fst kv) ''completed'') kvs))))
     env coll
   \<and> (\<forall>d \<in> set (snd (createTodo rw r env coll)). d \<in> set coll \<or> \<not> d_completed d)"
proof
  show "createTodo rw (request i (Document (JObject kvs))) env coll =
   createTodo rw
     (request i (Document (JObject (filter (\<lambda>kv. \<not> equalFold (fst kv) ''completed'') kvs))))
     env coll"
    by (simp add: createTodo_def request_def Decode_CreateTodo_def
        foldl_member_CreateTodo_filter)
next
  from createTodo_collection [of rw r env coll]
  show "\<forall>d \<in> set (snd (createTodo rw r env coll)). d \<in> set coll \<or> \<not> d_completed d"
    by auto
qed

theorem create_ignores_completed_witness:
  "createTodo newResponse
     (request [] (Document (JObject [(''title'', JString ''buy milk''),
                                     (''completed'', JBool True)]))) env0 [] =
   createTodo newResponse
     (request [] (Document (JObject [(''title'', JString ''buy milk'')]))) env0 []
   \<and> snd (createTodo newResponse
       (request [] (Document (JObject [(''title'', JString ''buy milk''),
                                       (''completed'', JBool True)]))) env0 []) = [milk]
   \<and> \<not> d_completed milk"
proof -
  let ?kvs = "[(''title'', JString ''buy milk''), (''completed'', JBool True)]"
  let ?r = "request [] (Document (JObject ?kvs))"
  have f: "filter (\<lambda>kv. \<not> equalFold (fst kv) ''completed'') ?kvs =
           [(''title'', JString ''buy milk'')]"
    by (simp add: equalFold_def toLower_def)
  have s: "snd (createTodo newResponse ?r env0 []) = [milk]"
    by (simp add: createTodo_def request_def Decode_CreateTodo_def member_CreateTodo_def
        fieldFor_def equalFold_def toLower_def InsertOne_def env0_def milk_def)
  note inst = create_ignores_completed [of newResponse "[]" ?kvs env0 "[]" ?r]
  from inst have "createTodo newResponse ?r env0 [] =
      createTodo newResponse
        (request [] (Document (JObject
           (filter (\<lambda>kv. \<not> equalFold (fst kv) ''completed'') ?kvs)))) env0 []"
    by (rule conjunct1)
  then have a: "createTodo newResponse ?r env0 [] =
      createTodo newResponse
        (request [] (Document (JObject [(''title'', JString ''buy milk'')]))) env0 []"
    by (simp only: f)
  from inst have "\<forall>d \<in> set (snd (createTodo newResponse ?r env0 [])).
      d \<in> set [] \<or> \<not> d_completed d"
    by (rule conjunct2)
  with s have b: "\<not> d_completed milk" by simp
  from a s b show ?thesis by blast
qed

text \<open>C2, as the handler has it. \<^verbatim>\<open>createTodo\<close> compares the decoded title with the empty
  string and does not trim it. A POST whose decoded title is empty (the member is \<^verbatim>\<open>""\<close>,
  \<^verbatim>\<open>null\<close> or absent) is answered with 400 and the collection is as before; when the
  body decoded without error the message is \<^verbatim>\<open>please add a title\<close>.\<close>

theorem create_empty_title:
  assumes "c_Title (fst (Decode_CreateTodo (r_Body r) \<lparr>c_Title = []\<rparr>)) = []"
  shows "rw_status (fst (createTodo newResponse r env coll)) = Some StatusBadRequest \<and>
         snd (createTodo newResponse r env coll) = coll \<and>
         (snd (Decode_CreateTodo (r_Body r) \<lparr>c_Title = []\<rparr>) = None \<longrightarrow>
            rw_written (fst (createTodo newResponse r env coll)) =
              [[(''message'', Str ''please add a title'')]])"
  using assms by (simp add: createTodo_def rnd_JSON_def newResponse_def Let_def)

theorem create_empty_title_witness:
  "createTodo newResponse (request [] (Document (JObject [(''title'', JString [])]))) env0 [milk] =
   (\<lparr>rw_status = Some StatusBadRequest,
     rw_written = [[(''message'', Str ''please add a title'')]]\<rparr>, [milk])"
proof -
  let ?r = "request [] (Document (JObject [(''title'', JString [])]))"
  have d: "Decode_CreateTodo (r_Body ?r) \<lparr>c_Title = []\<rparr> = (\<lparr>c_Title = []\<rparr>, None)"
    by (simp add: request_def Decode_CreateTodo_def member_CreateTodo_def fieldFor_def)
  then have 1: "c_Title (fst (Decode_CreateTodo (r_Body ?r) \<lparr>c_Title = []\<rparr>)) = []"
    by simp
  from create_empty_title [OF 1, of env0 "[milk]"] d
  have "rw_status (fst (createTodo newResponse ?r env0 [milk])) = Some StatusBadRequest \<and>
        snd (createTodo newResponse ?r env0 [milk]) = [milk] \<and>
        rw_written (fst (createTodo newResponse ?r env0 [milk])) =
          [[(''message'', Str ''please add a title'')]]"
    by simp
  then show ?thesis
    by (cases "createTodo newResponse ?r env0 [milk]"; cases "fst (createTodo newResponse ?r env0 [milk])")
       auto
qed

text \<open>A title of three blanks is white space only, and is stored: the answer is 201.\<close>

theorem create_blank_title_counterexample:
  "TrimSpace ''   '' = [] \<and>
   createTodo newResponse (request [] (Document (JObject [(''title'', JString ''   '')])))
     env0 [] =
   (\<lparr>rw_status = Some StatusCreated,
     rw_written = [[(''message'', Str ''Todo created successfully''),
                    (''ID'', Str ''6543210faabbccddee000002'')]]\<rparr>,
    [milk\<lparr>d_title := ''   ''\<rparr>])"
  by (simp add: TrimSpace_def leadingSpace_def trailingSpace_def space_encodings_def
      createTodo_def request_def Decode_CreateTodo_def member_CreateTodo_def fieldFor_def
      equalFold_def toLower_def InsertOne_def env0_def milk_def rnd_JSON_def newResponse_def
      id_B_def hexdigit_def)

text \<open>C4, as the handlers have it. An id that is not 24 hexadecimal digits, of either case,
  is refused with 400 by \<^verbatim>\<open>deleteTodo\<close>, and by \<^verbatim>\<open>updateTodo\<close> when it is not such a
  string after \<^verbatim>\<open>strings.TrimSpace\<close>. The response is the same for every environment and
  every collection, and the collection is returned as it was: the driver is not called.\<close>

theorem malformed_id_rejected:
  "(\<not> hexString24 (TrimSpace (r_id r)) \<longrightarrow>
      (\<exists>e. \<forall>env coll. updateTodo rw r env coll =
         (rnd_JSON rw StatusBadRequest
            [(''message'', Str ''The id is invalid''), (''error'', ErrText e)], coll)))
   \<and> (\<not> hexString24 (r_id r) \<longrightarrow>
      (\<exists>e. \<forall>env coll. deleteTodo rw r env coll =
         (rnd_JSON rw StatusBadRequest
            [(''message'', Str ''the ID is invalid''), (''error'', ErrText e)], coll)))"
proof (intro conjI impI)
  assume "\<not> hexString24 (TrimSpace (r_id r))"
  with ObjectIDFromHex_ok [of "TrimSpace (r_id r)"]
  obtain e where "ObjectIDFromHex (TrimSpace (r_id r)) = Inl e"
    by (cases "ObjectIDFromHex (TrimSpace (r_id r))") auto
  then have "\<forall>env coll. updateTodo rw r env coll =
         (rnd_JSON rw StatusBadRequest
            [(''message'', Str ''The id is invalid''), (''error'', ErrText e)], coll)"
    by (simp add: updateTodo_def)
  then show "\<exists>e. \<forall>env coll. updateTodo rw r env coll =
         (rnd_JSON rw StatusBadRequest
            [(''message'', Str ''The id is invalid''), (''error'', ErrText e)], coll)" ..
next
  assume "\<not> hexString24 (r_id r)"
  with ObjectIDFromHex_ok [of "r_id r"]
  obtain e where "ObjectIDFromHex (r_id r) = Inl e"
    by (cases "ObjectIDFromHex (r_id r)") auto
  then have "\<forall>env coll. deleteTodo rw r env coll =
         (rnd_JSON rw StatusBadRequest
            [(''message'', Str ''the ID is invalid''), (''error'', ErrText e)], coll)"
    by (simp add: deleteTodo_def)
  then show "\<exists>e. \<forall>env coll. deleteTodo rw r env coll =
         (rnd_JSON rw StatusBadRequest
            [(''message'', Str ''the ID is invalid''), (''error'', ErrText e)], coll)" ..
qed

theorem malformed_id_rejected_witness:
  "\<not> hexString24 (TrimSpace (r_id (request ''6543210faabbccddee00000g'' Garbled))) \<and>
   (\<exists>e. \<forall>env coll. updateTodo newResponse (request ''6543210faabbccddee00000g'' Garbled) env coll =
         (rnd_JSON newResponse StatusBadRequest
            [(''message'', Str ''The id is invalid''), (''error'', ErrText e)], coll)) \<and>
   \<not> hexString24 (r_id (request ''6543210faabbccddee00000g'' Garbled)) \<and>
   (\<exists>e. \<forall>env coll. deleteTodo newResponse (request ''6543210faabbccddee00000g'' Garbled) env coll =
         (rnd_JSON newResponse StatusBadRequest
            [(''message'', Str ''the ID is invalid''), (''error'', ErrText e)], coll))"
proof -
  let ?r = "request ''6543210faabbccddee00000g'' Garbled"
  have 1: "\<not> hexString24 (TrimSpace (r_id ?r))"
    by (simp add: request_def TrimSpace_def leadingSpace_def trailingSpace_def
        space_encodings_def hexString24_def)
  have 2: "\<not> hexString24 (r_id ?r)"
    by (simp add: request_def hexString24_def)
  from malformed_id_rejected [of ?r newResponse] 1 2 show ?thesis by blast
qed

text \<open>An id of uppercase digits is not in the lowercase format, and deletes the document;
  an id with a leading blank is not either, and updates it.\<close>

theorem malformed_id_counterexample:
  "\<not> lowerHex24 ''6543210FAABBCCDDEE000001'' \<and>
   deleteTodo newResponse (request ''6543210FAABBCCDDEE000001'' Garbled) env1 [milk] =
     (\<lparr>rw_status = Some StatusOK,
       rw_written = [[(''message'', Str ''Item deleted successfully''),
                      (''resultCont'', Count 1)]]\<rparr>, []) \<and>
   \<not> lowerHex24 '' 6543210faabbccddee000001'' \<and>
   updateTodo newResponse
     (request '' 6543210faabbccddee000001'' (Document (JObject [(''title'', JString ''x'')])))
     env1 [milk] =
     (\<lparr>rw_status = Some StatusOK,
       rw_written = [[(''message'', Str ''Updated successfully''),
                      (''resultCount'', Count 1)]]\<rparr>, [milk\<lparr>d_title := ''x''\<rparr>])"
  by (simp add: lowerHex24_def deleteTodo_def updateTodo_def request_def ObjectIDFromHex_def
      fromHexChar_def TrimSpace_def leadingSpace_def trailingSpace_def space_encodings_def
      DeleteOne_def UpdateOne_def env1_def milk_def id_A_def rnd_JSON_def newResponse_def
      Decode_UpdateTodo_def member_UpdateTodo_def fieldFor_def equalFold_def toLower_def)

subsection \<open>The fields of the responses\<close>















subsection \<open>A body that is no JSON value\<close>

text \<open>When the decoder reads no JSON value from the body of a PUT, the struct keeps its empty
  title: the handler writes the decode error, then the empty-title error, and returns. The
  status is 400 and the collection is as before.\<close>

lemma update_garbled_body:
  assumes "ObjectIDFromHex (TrimSpace (r_id r)) = Inr objID"
    and "r_Body r = Garbled"
  shows "updateTodo newResponse r env coll =
           (\<lparr>rw_status = Some StatusBadRequest,
             rw_written = [[(''message'', Str ''could not decode the data''),
                            (''error'', ErrText SyntaxError)],
                           [(''message'', Str ''title cannot be empty'')]]\<rparr>, coll)"
  using assms
  by (simp add: updateTodo_def Decode_UpdateTodo_def rnd_JSON_def newResponse_def)

text \<open>C1. The body \<^verbatim>\<open>{"title":"x","completed":"yes"}\<close> of a PUT for a stored id is a decode
  error, since a string does not fit the \<^verbatim>\<open>bool\<close> field, yet the title is decoded. The
  handler writes the 400 of the decode error and, not returning there, updates the document:
  the response has the status 400 and two bodies, and the stored title has changed.\<close>

theorem update_after_decode_error:
  "snd (Decode_UpdateTodo
          (Document (JObject [(''title'', JString ''x''), (''completed'', JString ''yes'')]))
          \<lparr>u_Title = [], u_Completed = False\<rparr>) =
     Some (UnmarshalTypeError ''string'' ''completed'')
   \<and> updateTodo newResponse
       (request ''6543210faabbccddee000001''
          (Document (JObject [(''title'', JString ''x''), (''completed'', JString ''yes'')])))
       env1 [milk] =
     (\<lparr>rw_status = Some StatusBadRequest,
       rw_written = [[(''message'', Str ''could not decode the data''),
                      (''error'', ErrText (UnmarshalTypeError ''string'' ''completed''))],
                     [(''message'', Str ''Updated successfully''),
                      (''resultCount'', Count 1)]]\<rparr>,
      [milk\<lparr>d_title := ''x''\<rparr>])"
  by (simp add: updateTodo_def request_def Decode_UpdateTodo_def member_UpdateTodo_def
      fieldFor_def equalFold_def toLower_def saveError_def ObjectIDFromHex_def fromHexChar_def
      TrimSpace_def leadingSpace_def trailingSpace_def space_encodings_def UpdateOne_def
      env1_def milk_def id_A_def rnd_JSON_def newResponse_def)

subsection \<open>What \<^verbatim>\<open>createTodo\<close> stores and \<^verbatim>\<open>getTodos\<close> lists\<close>

text \<open>A POST whose body decodes without error to a non-empty title, when the driver call
  does not fail and the \<^verbatim>\<open>_id\<close> it generates is new: one document is added, with that
  title, \<^verbatim>\<open>completed\<close> false, the time of the call in milliseconds and the identifier of
  \<^verbatim>\<open>primitive.NewObjectID\<close> as its \<^verbatim>\<open>id\<close>. The \<^verbatim>\<open>ID\<close> of the 201 response is the
  \<^verbatim>\<open>_id\<close> of the driver. \<^verbatim>\<open>getTodos\<close> lists every document under its \<^verbatim>\<open>id\<close>, when
  the stored dates can be encoded.\<close>

lemma create_persists:
  assumes "Decode_CreateTodo (r_Body r) \<lparr>c_Title = []\<rparr> = (c, None)"
    and "c_Title c \<noteq> []"
    and "e_storage env = None"
    and "e_driverID env \<notin> d_key ` set coll"
  shows "createTodo newResponse r env coll =
           (\<lparr>rw_status = Some StatusCreated,
             rw_written = [[(''message'', Str ''Todo created successfully''),
                            (''ID'', Str (Hex (e_driverID env)))]]\<rparr>,
            coll @ [\<lparr>d_key = e_driverID env, d_id = e_NewObjectID env, d_title = c_Title c,
                     d_completed = False, d_created_at = e_Now env div 1000000\<rparr>])"
  using assms
  by (simp add: createTodo_def InsertOne_def rnd_JSON_def newResponse_def)

lemma getTodos_lists:
  assumes "e_storage env = None" and "e_cursor env = None"
    and "list_all (\<lambda>d. jsonTime (d_created_at d * 1000000)) coll"
  shows "getTodos newResponse env coll =
           Some \<lparr>rw_status = Some StatusOK,
                 rw_written = [[(''message'', Str ''All todos retrieved''),
                                (''data'', Data (map (\<lambda>d. \<lparr>t_ID = Hex (d_id d), t_Title = d_title d,
                                    t_Completed = d_completed d,
                                    t_CreatedAt = d_created_at d * 1000000\<rparr>) coll))]]\<rparr>"
  using assms
  by (simp add: getTodos_def Find_def cursor_All_def toTodo_def toTodoModel_def rnd_JSON_def
      newResponse_def comp_def list_all_iff)

text \<open>C5. For the POST \<^verbatim>\<open>{"title":"buy milk"}\<close> the handler draws the identifier
  \<^verbatim>\<open>...01\<close> for the item and the driver \<^verbatim>\<open>...02\<close> for \<^verbatim>\<open>_id\<close>. The item is stored and
  listed under \<^verbatim>\<open>...01\<close>, the 201 response returns \<^verbatim>\<open>...02\<close>, and a PUT or DELETE with the
  returned identifier finds no item: 0 modified, 404.\<close>

theorem create_returns_other_id:
  "createTodo newResponse (request [] (Document (JObject [(''title'', JString ''buy milk'')])))
     env0 [] =
     (\<lparr>rw_status = Some StatusCreated,
       rw_written = [[(''message'', Str ''Todo created successfully''),
                      (''ID'', Str ''6543210faabbccddee000002'')]]\<rparr>, [milk])
   \<and> getTodos newResponse env1 [milk] =
     Some \<lparr>rw_status = Some StatusOK,
           rw_written = [[(''message'', Str ''All todos retrieved''),
                          (''data'', Data [\<lparr>t_ID = ''6543210faabbccddee000001'',
                                             t_Title = ''buy milk'', t_Completed = False,
                                             t_CreatedAt = 1700000000123000000\<rparr>])]]\<rparr>
   \<and> updateTodo newResponse
       (request ''6543210faabbccddee000002''
          (Document (JObject [(''title'', JString ''buy milk''), (''completed'', JBool True)])))
       env1 [milk] =
     (\<lparr>rw_status = Some StatusOK,
       rw_written = [[(''message'', Str ''Updated successfully''),
                      (''resultCount'', Count 0)]]\<rparr>, [milk])
   \<and> deleteTodo newResponse (request ''6543210faabbccddee000002'' Garbled) env1 [milk] =
     (\<lparr>rw_status = Some StatusNotFound,
       rw_written = [[(''message'', Str ''Todo not found'')]]\<rparr>, [milk])"
  by (simp add: createTodo_def getTodos_def updateTodo_def deleteTodo_def request_def
      Decode_CreateTodo_def member_CreateTodo_def Decode_UpdateTodo_def member_UpdateTodo_def
      fieldFor_def equalFold_def toLower_def InsertOne_def Find_def cursor_All_def
      toTodo_def toTodoModel_def UpdateOne_def DeleteOne_def ObjectIDFromHex_def
      fromHexChar_def TrimSpace_def leadingSpace_def trailingSpace_def space_encodings_def
      hexdigit_def env0_def env1_def milk_def id_A_def id_B_def rnd_JSON_def newResponse_def
      jsonTime_def)

end
